theory Spec2Isabelle
  imports Main
begin

section \<open>The dynamic-node-parameters controller\<close>

text \<open>
  A shallow embedding of \<^verbatim>\<open>packages/cli/src/controllers/dynamicNodeParameters.controller.ts\<close>:
  the two middlewares \<^verbatim>\<open>assertMethodName\<close> and \<^verbatim>\<open>parseQueryParams\<close>, and the three route
  handlers \<^verbatim>\<open>getOptions\<close>, \<^verbatim>\<open>getResourceLocatorResults\<close> and \<^verbatim>\<open>getResourceMappingFields\<close>.

  Every function of the controller either returns or throws, and on its way calls
  collaborators that live outside the controller. A run is therefore a pair: the outcome
  (\<open>Inl\<close> what was thrown, \<open>Inr\<close> what was returned) and the list of outside calls, in the
  order in which they were made.
\<close>

subsection \<open>Data\<close>

text \<open>
  \<^verbatim>\<open>req.query\<close>: every field is a string when the query string has the key and
  \<^verbatim>\<open>undefined\<close> (\<open>None\<close>) when it has not. The field \<^verbatim>\<open>filter\<close> is called \<open>filter_q\<close>.
\<close>

record query =
  path :: "string option"
  nodeTypeAndVersion :: "string option"
  currentNodeParameters :: "string option"
  methodName :: "string option"
  credentials :: "string option"
  loadOptions :: "string option"
  filter_q :: "string option"
  paginationToken :: "string option"

text \<open>
  \<^verbatim>\<open>req.params\<close>, which \<^verbatim>\<open>parseQueryParams\<close> overwrites with the decoded values. The type
  \<open>'j\<close> is the type of decoded JSON values; the controller never looks into one.
\<close>

record 'j params =
  nodeTypeAndVersion_p :: "'j option"
  currentNodeParameters_p :: "'j option"
  credentials_p :: "'j option"

record 'j request =
  query :: query
  params :: "'j params"
  user_id :: string

text \<open>
  What a request can fail with: a \<^verbatim>\<open>BadRequestError\<close> with its message, the failure of
  \<^verbatim>\<open>jsonParse\<close>, or whatever a collaborator threw (of type \<open>'x\<close>), passed on as it is.
\<close>

datatype 'x error = BadRequestError string | ParseError | Thrown 'x

text \<open>The four places where the controller calls \<^verbatim>\<open>jsonParse\<close>.\<close>

datatype json_field = FNodeTypeAndVersion | FCurrentNodeParameters | FCredentials | FLoadOptions

text \<open>
  The calls that leave the controller, with their arguments in the order of the source.
  \<open>'c\<close> is the type of the execution context (\<^verbatim>\<open>additionalData\<close>).
\<close>

datatype ('j, 'c) call =
    JsonParse json_field string
  | GetBase string "'j option"
  | GetOptionsViaMethodName "string option" "string option" 'c "'j option" "'j option" "'j option"
  | GetOptionsViaLoadOptions 'j 'c "'j option" "'j option" "'j option"
  | GetResourceLocatorResults "string option" "string option" 'c "'j option" "'j option"
      "'j option" "string option" "string option"
  | GetResourceMappingFields "string option" "string option" 'c "'j option" "'j option" "'j option"

text \<open>
  The collaborators: the JSON decoder behind \<^verbatim>\<open>jsonParse\<close> (\<open>None\<close> on malformed text),
  \<^verbatim>\<open>getBase\<close> of \<^verbatim>\<open>WorkflowExecuteAdditionalData\<close>, and the four methods of
  \<^verbatim>\<open>DynamicNodeParametersService\<close>. Each may throw (\<open>Inl\<close>). \<open>'r\<close> is the type of the
  records a resolution returns; \<^verbatim>\<open>undefined\<close> is \<open>None\<close>.
\<close>

record ('j, 'c, 'x, 'r) collaborators =
  json_decode :: "string \<Rightarrow> 'j option"
  getBase :: "string \<Rightarrow> 'j option \<Rightarrow> 'x + 'c"
  getOptionsViaMethodName ::
    "string option \<Rightarrow> string option \<Rightarrow> 'c \<Rightarrow> 'j option \<Rightarrow> 'j option \<Rightarrow> 'j option \<Rightarrow> 'x + 'r list"
  getOptionsViaLoadOptions ::
    "'j \<Rightarrow> 'c \<Rightarrow> 'j option \<Rightarrow> 'j option \<Rightarrow> 'j option \<Rightarrow> 'x + 'r list"
  getResourceLocatorResults ::
    "string option \<Rightarrow> string option \<Rightarrow> 'c \<Rightarrow> 'j option \<Rightarrow> 'j option \<Rightarrow> 'j option
      \<Rightarrow> string option \<Rightarrow> string option \<Rightarrow> 'x + 'r option"
  getResourceMappingFields ::
    "string option \<Rightarrow> string option \<Rightarrow> 'c \<Rightarrow> 'j option \<Rightarrow> 'j option \<Rightarrow> 'j option \<Rightarrow> 'x + 'r option"

text \<open>What a handler sends back, by endpoint.\<close>

datatype 'r response = OptionList "'r list" | LocatorResult "'r option" | MapperFields "'r option"

datatype endpoint = Options | ResourceLocatorResults | ResourceMapperFields

subsection \<open>Runs: outcome and calls\<close>

type_synonym ('e, 'a, 'l) run = "('e + 'a) \<times> 'l list"

definition ret :: "'a \<Rightarrow> ('e, 'a, 'l) run" where
  "ret a = (Inr a, [])"

definition throw :: "'e \<Rightarrow> ('e, 'a, 'l) run" where
  "throw e = (Inl e, [])"

text \<open>Sequencing: a throw ends the run; otherwise the calls of the second part follow.\<close>

definition and_then :: "('e, 'a, 'l) run \<Rightarrow> ('a \<Rightarrow> ('e, 'b, 'l) run) \<Rightarrow> ('e, 'b, 'l) run" where
  "and_then m f =
     (case m of
        (Inl e, l) \<Rightarrow> (Inl e, l)
      | (Inr a, l) \<Rightarrow> (case f a of (r, l') \<Rightarrow> (r, l @ l')))"

text \<open>One call of a collaborator: the call is recorded, a throw is passed on.\<close>

definition invoke :: "'l \<Rightarrow> 'x + 'a \<Rightarrow> ('x error, 'a, 'l) run" where
  "invoke c r = (case r of Inl x \<Rightarrow> (Inl (Thrown x), [c]) | Inr a \<Rightarrow> (Inr a, [c]))"

text \<open>JavaScript truthiness of an optional string: \<^verbatim>\<open>undefined\<close> and \<^verbatim>\<open>''\<close> are falsy.\<close>

definition truthy :: "string option \<Rightarrow> bool" where
  "truthy v = (case v of None \<Rightarrow> False | Some s \<Rightarrow> s \<noteq> [])"

text \<open>
  Modelled from the spec: \<^verbatim>\<open>jsonParse\<close> of \<^verbatim>\<open>n8n-workflow\<close> is not part of the controller's
  file. The spec has structured fields decoded as JSON text, and malformed JSON failing
  with a \<open>ParseError\<close>. The first argument says which call site decodes.
\<close>

definition jsonParse ::
  "('j, 'c, 'x, 'r) collaborators \<Rightarrow> json_field \<Rightarrow> string \<Rightarrow> ('x error, 'j, ('j, 'c) call) run" where
  "jsonParse env f s =
     (case json_decode env s of
        None \<Rightarrow> (Inl ParseError, [JsonParse f s])
      | Some j \<Rightarrow> (Inr j, [JsonParse f s]))"

subsection \<open>The middlewares\<close>

definition assertMethodName :: "'j request \<Rightarrow> ('x error, 'j request, ('j, 'c) call) run" where
  "assertMethodName req =
     (if \<not> truthy (methodName (query req))
      then throw (BadRequestError ''Parameter methodName is required.'')
      else ret req)"

definition parseQueryParams ::
  "('j, 'c, 'x, 'r) collaborators \<Rightarrow> 'j request \<Rightarrow> ('x error, 'j request, ('j, 'c) call) run" where
  "parseQueryParams env req =
     (let q = query req in
      if \<not> truthy (nodeTypeAndVersion q)
      then throw (BadRequestError ''Parameter nodeTypeAndVersion is required.'')
      else if \<not> truthy (currentNodeParameters q)
      then throw (BadRequestError ''Parameter currentNodeParameters is required.'')
      else
        and_then (jsonParse env FNodeTypeAndVersion (the (nodeTypeAndVersion q))) (\<lambda>ntv.
        and_then (jsonParse env FCurrentNodeParameters (the (currentNodeParameters q))) (\<lambda>cnp.
        and_then (if truthy (credentials q)
                  then and_then (jsonParse env FCredentials (the (credentials q)))
                         (\<lambda>c. ret (Some c))
                  else ret None) (\<lambda>creds.
        ret (req\<lparr>params := \<lparr>nodeTypeAndVersion_p = Some ntv,
                             currentNodeParameters_p = Some cnp,
                             credentials_p = creds\<rparr>\<rparr>)))))"

subsection \<open>The handlers\<close>

text \<open>
  Each handler first awaits \<^verbatim>\<open>getBase\<close> and then makes its one call of the service. The
  handlers \<^verbatim>\<open>getResourceLocatorResults\<close> and \<^verbatim>\<open>getResourceMappingFields\<close> carry the suffix
  \<open>_h\<close>, since the methods of the service they call have the same names.
\<close>

definition call_getBase ::
  "('j, 'c, 'x, 'r) collaborators \<Rightarrow> 'j request \<Rightarrow> ('x error, 'c, ('j, 'c) call) run" where
  "call_getBase env req =
     invoke (GetBase (user_id req) (currentNodeParameters_p (params req)))
       (getBase env (user_id req) (currentNodeParameters_p (params req)))"

definition getOptions ::
  "('j, 'c, 'x, 'r) collaborators \<Rightarrow> 'j request \<Rightarrow> ('x error, 'r list, ('j, 'c) call) run" where
  "getOptions env req =
     (let q = query req; p = params req in
      and_then (call_getBase env req) (\<lambda>additionalData.
        if truthy (methodName q) then
          invoke
            (GetOptionsViaMethodName (methodName q) (path q) additionalData
               (nodeTypeAndVersion_p p) (currentNodeParameters_p p) (credentials_p p))
            (getOptionsViaMethodName env (methodName q) (path q) additionalData
               (nodeTypeAndVersion_p p) (currentNodeParameters_p p) (credentials_p p))
        else if truthy (loadOptions q) then
          and_then (jsonParse env FLoadOptions (the (loadOptions q))) (\<lambda>lo.
            invoke
              (GetOptionsViaLoadOptions lo additionalData
                 (nodeTypeAndVersion_p p) (currentNodeParameters_p p) (credentials_p p))
              (getOptionsViaLoadOptions env lo additionalData
                 (nodeTypeAndVersion_p p) (currentNodeParameters_p p) (credentials_p p)))
        else ret []))"

definition getResourceLocatorResults_h ::
  "('j, 'c, 'x, 'r) collaborators \<Rightarrow> 'j request \<Rightarrow> ('x error, 'r option, ('j, 'c) call) run" where
  "getResourceLocatorResults_h env req =
     (let q = query req; p = params req in
      and_then (call_getBase env req) (\<lambda>additionalData.
        invoke
          (GetResourceLocatorResults (methodName q) (path q) additionalData
             (nodeTypeAndVersion_p p) (currentNodeParameters_p p) (credentials_p p)
             (filter_q q) (paginationToken q))
          (getResourceLocatorResults env (methodName q) (path q) additionalData
             (nodeTypeAndVersion_p p) (currentNodeParameters_p p) (credentials_p p)
             (filter_q q) (paginationToken q))))"

definition getResourceMappingFields_h ::
  "('j, 'c, 'x, 'r) collaborators \<Rightarrow> 'j request \<Rightarrow> ('x error, 'r option, ('j, 'c) call) run" where
  "getResourceMappingFields_h env req =
     (let q = query req; p = params req in
      and_then (call_getBase env req) (\<lambda>additionalData.
        invoke
          (GetResourceMappingFields (methodName q) (path q) additionalData
             (nodeTypeAndVersion_p p) (currentNodeParameters_p p) (credentials_p p))
          (getResourceMappingFields env (methodName q) (path q) additionalData
             (nodeTypeAndVersion_p p) (currentNodeParameters_p p) (credentials_p p))))"

subsection \<open>Routing\<close>

text \<open>
  The middlewares listed on a route by its \<^verbatim>\<open>@Get\<close> decorator: none on \<^verbatim>\<open>/options\<close>,
  \<^verbatim>\<open>[assertMethodName]\<close> on the other two.
\<close>

definition route_middlewares ::
  "endpoint \<Rightarrow> 'j request \<Rightarrow> ('x error, 'j request, ('j, 'c) call) run" where
  "route_middlewares ep req =
     (case ep of
        Options \<Rightarrow> ret req
      | ResourceLocatorResults \<Rightarrow> assertMethodName req
      | ResourceMapperFields \<Rightarrow> assertMethodName req)"

text \<open>
  Modelled from the spec: the decorators of \<^verbatim>\<open>@/decorators\<close>, which register the
  middlewares and the handler of a route with the router and so fix their order, are
  not part of the controller's file. The spec has the validator run once per call, before
  the context is built, with the method-name check before any other validation.
\<close>

definition validate ::
  "('j, 'c, 'x, 'r) collaborators \<Rightarrow> endpoint \<Rightarrow> 'j request
     \<Rightarrow> ('x error, 'j request, ('j, 'c) call) run" where
  "validate env ep req = and_then (route_middlewares ep req) (parseQueryParams env)"

text \<open>The handler of each route.\<close>

definition handler ::
  "('j, 'c, 'x, 'r) collaborators \<Rightarrow> endpoint \<Rightarrow> 'j request
     \<Rightarrow> ('x error, 'r response, ('j, 'c) call) run" where
  "handler env ep req =
     (case ep of
        Options \<Rightarrow> and_then (getOptions env req) (\<lambda>r. ret (OptionList r))
      | ResourceLocatorResults \<Rightarrow>
          and_then (getResourceLocatorResults_h env req) (\<lambda>r. ret (LocatorResult r))
      | ResourceMapperFields \<Rightarrow>
          and_then (getResourceMappingFields_h env req) (\<lambda>r. ret (MapperFields r)))"

text \<open>
  Modelled from the spec: how the router runs a route is not part of the controller's
  file either. The spec has each request go through the validator and then, when the
  validator lets it through, through the handler, which builds the context and calls
  the resolution; a failure anywhere ends the request.
\<close>

definition handle_request ::
  "('j, 'c, 'x, 'r) collaborators \<Rightarrow> endpoint \<Rightarrow> 'j request
     \<Rightarrow> ('x error, 'r response, ('j, 'c) call) run" where
  "handle_request env ep req = and_then (validate env ep req) (handler env ep)"

text \<open>
  Modelled from the spec: the mapping of a failure to an HTTP status is done by
  \<^verbatim>\<open>@/ResponseHelper\<close> and the router, which are not part of the controller's file. The spec
  has missing-parameter and malformed-JSON failures as 400, and a failure of a
  collaborator as whatever status the collaborator gave it (\<open>st\<close>).
\<close>

fun http_status :: "('x \<Rightarrow> nat) \<Rightarrow> 'x error + 'a \<Rightarrow> nat" where
  "http_status st (Inr _) = 200"
| "http_status st (Inl (BadRequestError _)) = 400"
| "http_status st (Inl ParseError) = 400"
| "http_status st (Inl (Thrown x)) = st x"

subsection \<open>Reading the list of calls\<close>

fun is_decode :: "('j, 'c) call \<Rightarrow> bool" where
  "is_decode (JsonParse _ _) = True"
| "is_decode _ = False"

fun is_getBase :: "('j, 'c) call \<Rightarrow> bool" where
  "is_getBase (GetBase _ _) = True"
| "is_getBase _ = False"

fun is_resolution :: "('j, 'c) call \<Rightarrow> bool" where
  "is_resolution (JsonParse _ _) = False"
| "is_resolution (GetBase _ _) = False"
| "is_resolution _ = True"

text \<open>The credentials argument of a resolution call.\<close>

fun credentials_arg :: "('j, 'c) call \<Rightarrow> 'j option" where
  "credentials_arg (GetOptionsViaMethodName _ _ _ _ _ cr) = cr"
| "credentials_arg (GetOptionsViaLoadOptions _ _ _ _ cr) = cr"
| "credentials_arg (GetResourceLocatorResults _ _ _ _ _ cr _ _) = cr"
| "credentials_arg (GetResourceMappingFields _ _ _ _ _ cr) = cr"
| "credentials_arg _ = None"

text \<open>What the collaborator answers to a resolution call, as the outcome of a request.\<close>

fun resolution_outcome ::
  "('j, 'c, 'x, 'r) collaborators \<Rightarrow> ('j, 'c) call \<Rightarrow> ('x error + 'r response) option" where
  "resolution_outcome env (GetOptionsViaMethodName m p a n c cr) =
     Some (map_sum Thrown OptionList (getOptionsViaMethodName env m p a n c cr))"
| "resolution_outcome env (GetOptionsViaLoadOptions lo a n c cr) =
     Some (map_sum Thrown OptionList (getOptionsViaLoadOptions env lo a n c cr))"
| "resolution_outcome env (GetResourceLocatorResults m p a n c cr f t) =
     Some (map_sum Thrown LocatorResult (getResourceLocatorResults env m p a n c cr f t))"
| "resolution_outcome env (GetResourceMappingFields m p a n c cr) =
     Some (map_sum Thrown MapperFields (getResourceMappingFields env m p a n c cr))"
| "resolution_outcome env _ = None"

subsection \<open>A stub service and sample requests\<close>

text \<open>
  Decoded JSON is kept as its text; the decoder rejects the empty text and the text
  \<^verbatim>\<open>not-json\<close>. A thrown value is a status and a message.
\<close>

definition stub_decode :: "string \<Rightarrow> string option" where
  "stub_decode s = (if s = [] \<or> s = ''not-json'' then None else Some s)"

definition stub_env :: "(string, string, nat \<times> string, string \<times> string) collaborators" where
  "stub_env =
     \<lparr>json_decode = stub_decode,
      getBase = (\<lambda>uid p. Inr uid),
      getOptionsViaMethodName = (\<lambda>m p a n c cr. Inr [(''A'', ''a'')]),
      getOptionsViaLoadOptions = (\<lambda>lo a n c cr. Inr [(''B'', ''b'')]),
      getResourceLocatorResults = (\<lambda>m p a n c cr f t. Inr None),
      getResourceMappingFields = (\<lambda>m p a n c cr. Inr (Some (''id'', ''string'')))\<rparr>"

definition no_context_env ::
  "(string, string, nat \<times> string, string \<times> string) collaborators" where
  "no_context_env = stub_env\<lparr>getBase := (\<lambda>uid p. Inl (500, ''no context''))\<rparr>"

definition unreachable_env ::
  "(string, string, nat \<times> string, string \<times> string) collaborators" where
  "unreachable_env =
     stub_env\<lparr>getOptionsViaMethodName :=
                (\<lambda>m p a n c cr. Inl (500, ''upstream unreachable''))\<rparr>"

definition base_query :: query where
  "base_query =
     \<lparr>path = Some ''parameters.url'',
      nodeTypeAndVersion = Some ''{name,1}'',
      currentNodeParameters = Some ''{}'',
      methodName = None,
      credentials = None,
      loadOptions = None,
      filter_q = None,
      paginationToken = None\<rparr>"

definition request_of :: "query \<Rightarrow> string request" where
  "request_of q =
     \<lparr>query = q,
      params = \<lparr>nodeTypeAndVersion_p = None, currentNodeParameters_p = None,
                credentials_p = None\<rparr>,
      user_id = ''u1''\<rparr>"

text \<open>
  What \<^verbatim>\<open>parseQueryParams\<close> stores as credentials, and the calls of \<^verbatim>\<open>jsonParse\<close> it
  makes when every field it decodes is well-formed.
\<close>

definition decoded_credentials ::
  "('j, 'c, 'x, 'r) collaborators \<Rightarrow> query \<Rightarrow> 'j option" where
  "decoded_credentials env q =
     (if truthy (credentials q) then json_decode env (the (credentials q)) else None)"

definition validator_calls :: "query \<Rightarrow> ('j, 'c) call list" where
  "validator_calls q =
     JsonParse FNodeTypeAndVersion (the (nodeTypeAndVersion q))
     # JsonParse FCurrentNodeParameters (the (currentNodeParameters q))
     # (if truthy (credentials q) then [JsonParse FCredentials (the (credentials q))] else [])"

section \<open>Properties\<close>

subsection \<open>Auxiliary facts\<close>

lemma and_then_Inl [simp]: "and_then (Inl e, l) f = (Inl e, l)"
  by (simp add: and_then_def)

lemma and_then_Inr [simp]: "and_then (Inr a, l) f = (fst (f a), l @ snd (f a))"
  by (simp add: and_then_def split: prod.splits)

lemma and_then_ret [simp]: "and_then (ret a) f = f a"
  by (simp add: ret_def)

lemma and_then_throw [simp]: "and_then (throw e) f = throw e"
  by (simp add: throw_def)

lemma handle_request_valid:
  "validate env ep req = (Inr req', vlog) \<Longrightarrow>
   handle_request env ep req = (fst (handler env ep req'), vlog @ snd (handler env ep req'))"
  by (simp add: handle_request_def)

lemma handle_request_invalid:
  "validate env ep req = (Inl e, vlog) \<Longrightarrow> handle_request env ep req = (Inl e, vlog)"
  by (simp add: handle_request_def)

lemma parseQueryParams_missing_ntv:
  "\<not> truthy (nodeTypeAndVersion (query req)) \<Longrightarrow>
   parseQueryParams env req =
     (Inl (BadRequestError ''Parameter nodeTypeAndVersion is required.''), [])"
  by (simp add: parseQueryParams_def throw_def)

lemma parseQueryParams_missing_cnp:
  "truthy (nodeTypeAndVersion (query req)) \<Longrightarrow> \<not> truthy (currentNodeParameters (query req)) \<Longrightarrow>
   parseQueryParams env req =
     (Inl (BadRequestError ''Parameter currentNodeParameters is required.''), [])"
  by (simp add: parseQueryParams_def throw_def)

lemma parseQueryParams_ok:
  assumes "parseQueryParams env req = (Inr req', vlog)"
  shows "truthy (nodeTypeAndVersion (query req))"
    and "truthy (currentNodeParameters (query req))"
    and "req' = req\<lparr>params :=
           \<lparr>nodeTypeAndVersion_p = json_decode env (the (nodeTypeAndVersion (query req))),
            currentNodeParameters_p = json_decode env (the (currentNodeParameters (query req))),
            credentials_p = decoded_credentials env (query req)\<rparr>\<rparr>"
    and "vlog = validator_calls (query req)"
    and "json_decode env (the (nodeTypeAndVersion (query req))) \<noteq> None"
    and "json_decode env (the (currentNodeParameters (query req))) \<noteq> None"
    and "truthy (credentials (query req)) \<Longrightarrow> json_decode env (the (credentials (query req))) \<noteq> None"
  using assms
  by (auto simp: parseQueryParams_def jsonParse_def throw_def ret_def Let_def
        decoded_credentials_def validator_calls_def
      split: if_splits option.splits)

lemma parseQueryParams_malformed:
  assumes "truthy (nodeTypeAndVersion (query req))" "truthy (currentNodeParameters (query req))"
    and "json_decode env (the (nodeTypeAndVersion (query req))) = None
       \<or> json_decode env (the (currentNodeParameters (query req))) = None
       \<or> (truthy (credentials (query req)) \<and> json_decode env (the (credentials (query req))) = None)"
  shows "fst (parseQueryParams env req) = Inl ParseError"
    and "\<forall>c \<in> set (snd (parseQueryParams env req)). is_decode c"
  using assms
  by (auto simp: parseQueryParams_def jsonParse_def throw_def ret_def Let_def
      split: if_splits option.splits)

lemma parseQueryParams_calls:
  "c \<in> set (snd (parseQueryParams env req)) \<Longrightarrow>
   \<exists>f s. c = JsonParse f s \<and> f \<noteq> FLoadOptions"
  by (auto simp: parseQueryParams_def jsonParse_def throw_def ret_def Let_def
      split: if_splits option.splits)

lemma validate_gate:
  "ep = Options \<or> truthy (methodName (query req)) \<Longrightarrow>
   validate env ep req = parseQueryParams env req"
  by (auto simp: validate_def route_middlewares_def assertMethodName_def split: endpoint.splits)

lemma validate_no_method:
  "ep \<noteq> Options \<Longrightarrow> \<not> truthy (methodName (query req)) \<Longrightarrow>
   validate env ep req = (Inl (BadRequestError ''Parameter methodName is required.''), [])"
  by (auto simp: validate_def route_middlewares_def assertMethodName_def throw_def
      split: endpoint.splits)

lemma validate_ok_gate:
  "validate env ep req = (Inr req', vlog) \<Longrightarrow> ep = Options \<or> truthy (methodName (query req))"
  by (cases "ep = Options \<or> truthy (methodName (query req))") (auto simp: validate_no_method)

lemma validate_calls:
  "c \<in> set (snd (validate env ep req)) \<Longrightarrow> \<exists>f s. c = JsonParse f s \<and> f \<noteq> FLoadOptions"
proof (cases "ep = Options \<or> truthy (methodName (query req))")
  case True
  assume "c \<in> set (snd (validate env ep req))"
  with True show ?thesis by (auto simp: validate_gate dest: parseQueryParams_calls)
next
  case False
  assume "c \<in> set (snd (validate env ep req))"
  with False show ?thesis by (simp add: validate_no_method)
qed

lemma validate_ok:
  assumes "validate env ep req = (Inr req', vlog)"
  shows "query req' = query req" and "user_id req' = user_id req"
    and "credentials_p (params req') = decoded_credentials env (query req)"
    and "vlog = validator_calls (query req)"
    and "\<forall>c \<in> set vlog. is_decode c"
proof -
  from assms have g: "ep = Options \<or> truthy (methodName (query req))" by (rule validate_ok_gate)
  with assms have p: "parseQueryParams env req = (Inr req', vlog)" by (simp add: validate_gate)
  note r = parseQueryParams_ok(3)[OF p]
  show "query req' = query req" by (simp add: r)
  show "user_id req' = user_id req" by (simp add: r)
  show "credentials_p (params req') = decoded_credentials env (query req)" by (simp add: r)
  show "vlog = validator_calls (query req)" by (rule parseQueryParams_ok(4)[OF p])
  then show "\<forall>c \<in> set vlog. is_decode c" by (simp add: validator_calls_def)
qed

lemmas handler_defs = handler_def getOptions_def getResourceLocatorResults_h_def
  getResourceMappingFields_h_def call_getBase_def invoke_def jsonParse_def ret_def Let_def

lemmas run_defs = handle_request_def validate_def route_middlewares_def assertMethodName_def
  parseQueryParams_def handler_defs and_then_def throw_def truthy_def

lemmas eval_defs = run_defs stub_env_def stub_decode_def no_context_env_def unreachable_env_def
  base_query_def request_of_def

lemma handler_context_failure:
  "getBase env (user_id req) (currentNodeParameters_p (params req)) = Inl x \<Longrightarrow>
   handler env ep req =
     (Inl (Thrown x), [GetBase (user_id req) (currentNodeParameters_p (params req))])"
  by (simp add: handler_def getOptions_def getResourceLocatorResults_h_def
        getResourceMappingFields_h_def call_getBase_def invoke_def Let_def
      split: endpoint.splits)

lemma handler_resolution:
  assumes "c \<in> set (snd (handler env ep r))" and "is_resolution c"
  shows "resolution_outcome env c = Some (fst (handler env ep r))
       \<and> filter is_resolution (snd (handler env ep r)) = [c]"
  using assms
  by (cases ep)
     (auto simp: handler_defs split: sum.splits if_splits option.splits)

lemma handler_calls:
  "\<exists>rest. snd (handler env ep r) = GetBase (user_id r) (currentNodeParameters_p (params r)) # rest
     \<and> (\<forall>c \<in> set rest. \<not> is_getBase c)"
  by (cases ep)
     (auto simp: handler_defs split: sum.splits if_splits option.splits)

lemma handler_calls_shape:
  "filter (\<lambda>c. \<not> is_decode c) (snd (handler env ep r))
     = GetBase (user_id r) (currentNodeParameters_p (params r))
       # filter is_resolution (snd (handler env ep r))"
  by (cases ep)
     (auto simp: handler_defs and_then_def split: sum.splits if_splits option.splits)

lemma handler_Options_run:
  assumes "getBase env (user_id r) (currentNodeParameters_p (params r)) = Inr ad"
  shows "truthy (methodName (query r)) \<Longrightarrow>
           filter is_resolution (snd (handler env Options r))
             = [GetOptionsViaMethodName (methodName (query r)) (path (query r)) ad
                  (nodeTypeAndVersion_p (params r)) (currentNodeParameters_p (params r))
                  (credentials_p (params r))]"
    and "\<not> truthy (methodName (query r)) \<Longrightarrow> truthy (loadOptions (query r)) \<Longrightarrow>
           json_decode env (the (loadOptions (query r))) = Some lo \<Longrightarrow>
           filter is_resolution (snd (handler env Options r))
             = [GetOptionsViaLoadOptions lo ad
                  (nodeTypeAndVersion_p (params r)) (currentNodeParameters_p (params r))
                  (credentials_p (params r))]"
    and "\<not> truthy (methodName (query r)) \<Longrightarrow> truthy (loadOptions (query r)) \<Longrightarrow>
           json_decode env (the (loadOptions (query r))) = None \<Longrightarrow>
           filter is_resolution (snd (handler env Options r)) = []
           \<and> fst (handler env Options r) = Inl ParseError"
    and "\<not> truthy (methodName (query r)) \<Longrightarrow> \<not> truthy (loadOptions (query r)) \<Longrightarrow>
           handler env Options r
             = (Inr (OptionList []),
                [GetBase (user_id r) (currentNodeParameters_p (params r))])"
  using assms
  by (auto simp: handler_defs split: sum.splits)

lemma handler_credentials:
  "c \<in> set (snd (handler env ep r)) \<Longrightarrow> is_resolution c \<Longrightarrow>
   credentials_arg c = credentials_p (params r)"
  by (cases ep)
     (auto simp: handler_defs and_then_def split: sum.splits if_splits option.splits)

lemma handler_locator_args:
  "GetResourceLocatorResults m p a n cp cr f t \<in> set (snd (handler env ep r)) \<Longrightarrow>
   f = filter_q (query r) \<and> t = paginationToken (query r)"
  by (cases ep)
     (auto simp: handler_defs and_then_def split: sum.splits if_splits option.splits)

lemma filter_resolution_valid:
  assumes "validate env ep req = (Inr req', vlog)"
  shows "filter is_resolution (snd (handle_request env ep req))
           = filter is_resolution (snd (handler env ep req'))"
    and "fst (handle_request env ep req) = fst (handler env ep req')"
proof -
  have "\<forall>c \<in> set vlog. \<not> is_resolution c"
    using validate_calls[of _ env ep req] assms by fastforce
  then show "filter is_resolution (snd (handle_request env ep req))
           = filter is_resolution (snd (handler env ep req'))"
    by (simp add: handle_request_valid[OF assms] filter_empty_conv[THEN iffD2])
  show "fst (handle_request env ep req) = fst (handler env ep req')"
    by (simp add: handle_request_valid[OF assms])
qed

lemma resolution_call_in_handler:
  assumes "validate env ep req = (Inr req', vlog)"
    and "c \<in> set (snd (handle_request env ep req))" and "\<not> is_decode c"
  shows "c \<in> set (snd (handler env ep req'))"
  using assms validate_ok(5)[OF assms(1)]
  by (auto simp: handle_request_valid[OF assms(1)])

lemma resolution_call_valid:
  assumes "c \<in> set (snd (handle_request env ep req))" and "\<not> is_decode c"
  obtains req' vlog where "validate env ep req = (Inr req', vlog)"
proof (cases "validate env ep req")
  case (Pair out vlog)
  show ?thesis
  proof (cases out)
    case (Inl e)
    with Pair have "handle_request env ep req = (Inl e, vlog)"
      by (simp add: handle_request_invalid)
    with assms validate_calls[of c env ep req] Pair have False by auto
    then show ?thesis ..
  next
    case (Inr req')
    with Pair that show ?thesis by simp
  qed
qed

lemma empty_methodName_as_absent:
  "handle_request env ep (req\<lparr>query := (query req)\<lparr>methodName := Some []\<rparr>\<rparr>)
     = handle_request env ep (req\<lparr>query := (query req)\<lparr>methodName := None\<rparr>\<rparr>)"
  by (cases ep) (simp_all add: run_defs split: option.splits sum.splits)

lemma empty_loadOptions_as_absent:
  "handle_request env ep (req\<lparr>query := (query req)\<lparr>loadOptions := Some []\<rparr>\<rparr>)
     = handle_request env ep (req\<lparr>query := (query req)\<lparr>loadOptions := None\<rparr>\<rparr>)"
  by (cases ep) (simp_all add: run_defs split: option.splits sum.splits)

lemma empty_credentials_as_absent:
  "handle_request env ep (req\<lparr>query := (query req)\<lparr>credentials := Some []\<rparr>\<rparr>)
     = handle_request env ep (req\<lparr>query := (query req)\<lparr>credentials := None\<rparr>\<rparr>)"
  by (cases ep) (simp_all add: run_defs split: option.splits sum.splits)

lemma handler_run:
  assumes "getBase env (user_id r) (currentNodeParameters_p (params r)) = Inr ad"
  shows "handler env ResourceLocatorResults r
           = (map_sum Thrown LocatorResult
                (getResourceLocatorResults env (methodName (query r)) (path (query r)) ad
                   (nodeTypeAndVersion_p (params r)) (currentNodeParameters_p (params r))
                   (credentials_p (params r)) (filter_q (query r)) (paginationToken (query r))),
              [GetBase (user_id r) (currentNodeParameters_p (params r)),
               GetResourceLocatorResults (methodName (query r)) (path (query r)) ad
                 (nodeTypeAndVersion_p (params r)) (currentNodeParameters_p (params r))
                 (credentials_p (params r)) (filter_q (query r)) (paginationToken (query r))])"
    and "handler env ResourceMapperFields r
           = (map_sum Thrown MapperFields
                (getResourceMappingFields env (methodName (query r)) (path (query r)) ad
                   (nodeTypeAndVersion_p (params r)) (currentNodeParameters_p (params r))
                   (credentials_p (params r))),
              [GetBase (user_id r) (currentNodeParameters_p (params r)),
               GetResourceMappingFields (methodName (query r)) (path (query r)) ad
                 (nodeTypeAndVersion_p (params r)) (currentNodeParameters_p (params r))
                 (credentials_p (params r))])"
    and "truthy (methodName (query r)) \<Longrightarrow>
         handler env Options r
           = (map_sum Thrown OptionList
                (getOptionsViaMethodName env (methodName (query r)) (path (query r)) ad
                   (nodeTypeAndVersion_p (params r)) (currentNodeParameters_p (params r))
                   (credentials_p (params r))),
              [GetBase (user_id r) (currentNodeParameters_p (params r)),
               GetOptionsViaMethodName (methodName (query r)) (path (query r)) ad
                 (nodeTypeAndVersion_p (params r)) (currentNodeParameters_p (params r))
                 (credentials_p (params r))])"
    and "\<not> truthy (methodName (query r)) \<Longrightarrow> truthy (loadOptions (query r)) \<Longrightarrow>
         json_decode env (the (loadOptions (query r))) = Some lo \<Longrightarrow>
         handler env Options r
           = (map_sum Thrown OptionList
                (getOptionsViaLoadOptions env lo ad
                   (nodeTypeAndVersion_p (params r)) (currentNodeParameters_p (params r))
                   (credentials_p (params r))),
              [GetBase (user_id r) (currentNodeParameters_p (params r)),
               JsonParse FLoadOptions (the (loadOptions (query r))),
               GetOptionsViaLoadOptions lo ad
                 (nodeTypeAndVersion_p (params r)) (currentNodeParameters_p (params r))
                 (credentials_p (params r))])"
  using assms
  by (auto simp: handler_defs split: sum.splits)

lemma handle_request_run:
  assumes "validate env ep req = (Inr req', vlog)"
  shows "handle_request env ep req
           = (fst (handler env ep req'), vlog @ snd (handler env ep req'))"
    and "query req' = query req" and "user_id req' = user_id req"
  using assms by (simp_all add: handle_request_valid validate_ok(1,2))

lemma stored_credentials:
  assumes "validate env ep req = (Inr req', vlog)"
  shows "credentials (query req) = Some s \<Longrightarrow> s \<noteq> [] \<Longrightarrow>
           credentials_p (params req') = json_decode env s \<and> json_decode env s \<noteq> None"
    and "credentials (query req) = None \<or> credentials (query req) = Some [] \<Longrightarrow>
           credentials_p (params req') = None"
proof -
  from assms have g: "ep = Options \<or> truthy (methodName (query req))" by (rule validate_ok_gate)
  with assms have p: "parseQueryParams env req = (Inr req', vlog)" by (simp add: validate_gate)
  show "credentials (query req) = Some s \<Longrightarrow> s \<noteq> [] \<Longrightarrow>
           credentials_p (params req') = json_decode env s \<and> json_decode env s \<noteq> None"
    using parseQueryParams_ok(7)[OF p] validate_ok(3)[OF assms]
    by (simp add: decoded_credentials_def truthy_def)
  show "credentials (query req) = None \<or> credentials (query req) = Some [] \<Longrightarrow>
           credentials_p (params req') = None"
    using validate_ok(3)[OF assms]
    by (auto simp: decoded_credentials_def truthy_def)
qed

subsection \<open>Mode selection on the options endpoint\<close>

text \<open>
  Claim C1, as amended. Take an options request that passes validation and whose context
  is built. If \<^verbatim>\<open>methodName\<close> is supplied and not empty, the one resolution call made is
  the one by method name, whatever \<^verbatim>\<open>loadOptions\<close> is. Otherwise, if \<^verbatim>\<open>loadOptions\<close> is
  supplied and not empty, it is decoded: when it decodes, the one resolution call made is
  the one by load-options descriptor, and when it does not, the request fails with the
  parse error and no resolution call is made. Otherwise the request succeeds with the
  empty list and no resolution call is made.
\<close>

theorem options_mode_selection:
  assumes "validate env Options req = (Inr req', vlog)"
    and "getBase env (user_id req') (currentNodeParameters_p (params req')) = Inr ad"
  shows "(truthy (methodName (query req)) \<longrightarrow>
            filter is_resolution (snd (handle_request env Options req))
              = [GetOptionsViaMethodName (methodName (query req)) (path (query req)) ad
                   (nodeTypeAndVersion_p (params req')) (currentNodeParameters_p (params req'))
                   (credentials_p (params req'))])
       \<and> (\<not> truthy (methodName (query req)) \<and> truthy (loadOptions (query req)) \<longrightarrow>
            (\<forall>lo. json_decode env (the (loadOptions (query req))) = Some lo \<longrightarrow>
               filter is_resolution (snd (handle_request env Options req))
                 = [GetOptionsViaLoadOptions lo ad
                      (nodeTypeAndVersion_p (params req')) (currentNodeParameters_p (params req'))
                      (credentials_p (params req'))])
            \<and> (json_decode env (the (loadOptions (query req))) = None \<longrightarrow>
               filter is_resolution (snd (handle_request env Options req)) = []
               \<and> fst (handle_request env Options req) = Inl ParseError))
       \<and> (\<not> truthy (methodName (query req)) \<and> \<not> truthy (loadOptions (query req)) \<longrightarrow>
            fst (handle_request env Options req) = Inr (OptionList [])
            \<and> filter is_resolution (snd (handle_request env Options req)) = [])"
proof -
  note q = validate_ok(1)[OF assms(1)]
  note f = filter_resolution_valid[OF assms(1)]
  note h = handler_Options_run[OF assms(2)]
  show ?thesis
    using h(1) h(2) h(3) h(4) by (simp add: f q)
qed

theorem options_mode_selection_witness:
  "filter is_resolution
     (snd (handle_request stub_env Options
        (request_of (base_query\<lparr>methodName := Some ''getUrls'', loadOptions := Some ''{}''\<rparr>))))
   = [GetOptionsViaMethodName (Some ''getUrls'') (Some ''parameters.url'') ''u1''
        (Some ''{name,1}'') (Some ''{}'') None]"
proof -
  let ?r = "request_of (base_query\<lparr>methodName := Some ''getUrls'', loadOptions := Some ''{}''\<rparr>)"
  let ?r' = "?r\<lparr>params := \<lparr>nodeTypeAndVersion_p = Some ''{name,1}'',
                            currentNodeParameters_p = Some ''{}'',
                            credentials_p = None\<rparr>\<rparr>"
  have v: "validate stub_env Options ?r
     = (Inr ?r',
        [JsonParse FNodeTypeAndVersion ''{name,1}'', JsonParse FCurrentNodeParameters ''{}''])"
    by (simp add: eval_defs)
  have b: "getBase stub_env (user_id ?r') (currentNodeParameters_p (params ?r')) = Inr ''u1''"
    by (simp add: stub_env_def request_of_def)
  from options_mode_selection[OF v b] show ?thesis
    by (simp add: request_of_def base_query_def truthy_def)
qed

text \<open>
  As stated, the claim takes every supplied \<^verbatim>\<open>methodName\<close> to select the method-name mode.
  The handler tests \<^verbatim>\<open>if (methodName)\<close>, and the empty string is falsy: with
  \<^verbatim>\<open>methodName=\<close> and a \<^verbatim>\<open>loadOptions\<close>, the call made is the one by load-options descriptor.
\<close>

theorem options_mode_selection_counterexample:
  "methodName (query (request_of (base_query\<lparr>methodName := Some [], loadOptions := Some ''{}''\<rparr>)))
     = Some []
   \<and> filter is_resolution
       (snd (handle_request stub_env Options
          (request_of (base_query\<lparr>methodName := Some [], loadOptions := Some ''{}''\<rparr>))))
     = [GetOptionsViaLoadOptions ''{}'' ''u1'' (Some ''{name,1}'') (Some ''{}'') None]"
  by (simp add: eval_defs)

subsection \<open>The method-name gate\<close>

text \<open>
  Claim C2. On the resource-locator-results and resource-mapper-fields endpoints, a
  request without \<^verbatim>\<open>methodName\<close> fails with the bad-request error that names
  \<^verbatim>\<open>methodName\<close> (status 400), and nothing else has happened by then: no other field has
  been checked or decoded and no collaborator has been called, whatever else the request
  lacks.
\<close>

theorem methodName_required_first:
  assumes "ep = ResourceLocatorResults \<or> ep = ResourceMapperFields"
    and "methodName (query req) = None"
  shows "handle_request env ep req
           = (Inl (BadRequestError ''Parameter methodName is required.''), [])
       \<and> http_status st (fst (handle_request env ep req)) = 400"
proof -
  from assms have "validate env ep req
      = (Inl (BadRequestError ''Parameter methodName is required.''), [])"
    by (intro validate_no_method) (auto simp: truthy_def)
  then show ?thesis by (simp add: handle_request_invalid)
qed

theorem methodName_required_first_witness:
  "handle_request stub_env ResourceMapperFields
     (request_of (base_query\<lparr>nodeTypeAndVersion := None\<rparr>))
     = (Inl (BadRequestError ''Parameter methodName is required.''), [])
   \<and> http_status fst
       (fst (handle_request stub_env ResourceMapperFields
          (request_of (base_query\<lparr>nodeTypeAndVersion := None\<rparr>)))) = 400"
  using methodName_required_first[of ResourceMapperFields
          "request_of (base_query\<lparr>nodeTypeAndVersion := None\<rparr>)" stub_env fst]
  by (simp add: request_of_def base_query_def)

subsection \<open>The required fields\<close>

text \<open>
  Claim C3, as amended. The validator \<^verbatim>\<open>parseQueryParams\<close> fails with the bad-request
  error that names \<^verbatim>\<open>nodeTypeAndVersion\<close> when that field is absent or empty, and
  otherwise with the one that names \<^verbatim>\<open>currentNodeParameters\<close> when that field is absent
  or empty, and it has called nothing by then. On the options endpoint, and on the other
  two endpoints when a non-empty \<^verbatim>\<open>methodName\<close> is supplied, this failure is the outcome
  of the request: the status is 400 and no call has been made.
\<close>

theorem required_fields_checked:
  "(\<not> truthy (nodeTypeAndVersion (query req)) \<longrightarrow>
      parseQueryParams env req
        = (Inl (BadRequestError ''Parameter nodeTypeAndVersion is required.''), []))
   \<and> (truthy (nodeTypeAndVersion (query req))
        \<and> \<not> truthy (currentNodeParameters (query req)) \<longrightarrow>
      parseQueryParams env req
        = (Inl (BadRequestError ''Parameter currentNodeParameters is required.''), []))
   \<and> (ep = Options \<or> truthy (methodName (query req)) \<longrightarrow>
        (\<not> truthy (nodeTypeAndVersion (query req)) \<longrightarrow>
            handle_request env ep req
              = (Inl (BadRequestError ''Parameter nodeTypeAndVersion is required.''), []))
       \<and> (truthy (nodeTypeAndVersion (query req))
            \<and> \<not> truthy (currentNodeParameters (query req)) \<longrightarrow>
            handle_request env ep req
              = (Inl (BadRequestError ''Parameter currentNodeParameters is required.''), []))
       \<and> (\<not> truthy (nodeTypeAndVersion (query req))
            \<or> \<not> truthy (currentNodeParameters (query req)) \<longrightarrow>
            http_status st (fst (handle_request env ep req)) = 400))"
proof -
  have v: "handle_request env ep req = and_then (parseQueryParams env req) (handler env ep)"
    if "ep = Options \<or> truthy (methodName (query req))"
    using that by (simp add: handle_request_def validate_gate)
  show ?thesis
    by (cases "truthy (nodeTypeAndVersion (query req))")
       (auto simp: v parseQueryParams_missing_ntv parseQueryParams_missing_cnp)
qed

theorem required_fields_checked_witness:
  "handle_request stub_env ResourceLocatorResults
     (request_of (base_query\<lparr>methodName := Some ''search'', nodeTypeAndVersion := None\<rparr>))
     = (Inl (BadRequestError ''Parameter nodeTypeAndVersion is required.''), [])
   \<and> handle_request stub_env Options
     (request_of (base_query\<lparr>currentNodeParameters := None\<rparr>))
     = (Inl (BadRequestError ''Parameter currentNodeParameters is required.''), [])
   \<and> http_status fst
       (fst (handle_request stub_env Options
          (request_of (base_query\<lparr>currentNodeParameters := None\<rparr>)))) = 400"
  using required_fields_checked[where ep = ResourceLocatorResults and env = stub_env
          and st = fst and req =
          "request_of (base_query\<lparr>methodName := Some ''search'', nodeTypeAndVersion := None\<rparr>)"]
        required_fields_checked[where ep = Options and env = stub_env and st = fst
          and req = "request_of (base_query\<lparr>currentNodeParameters := None\<rparr>)"]
  by (simp add: request_of_def base_query_def truthy_def)

text \<open>
  As stated, the claim has the error name \<^verbatim>\<open>currentNodeParameters\<close> whenever
  \<^verbatim>\<open>nodeTypeAndVersion\<close> is supplied and \<^verbatim>\<open>currentNodeParameters\<close> is not. The validator
  tests \<^verbatim>\<open>!nodeTypeAndVersion\<close> first, and the empty string is falsy: an options request
  with \<^verbatim>\<open>nodeTypeAndVersion=\<close> and no \<^verbatim>\<open>currentNodeParameters\<close> fails with the error that
  names \<^verbatim>\<open>nodeTypeAndVersion\<close>.
\<close>

theorem required_fields_checked_counterexample:
  "nodeTypeAndVersion (query (request_of (base_query\<lparr>nodeTypeAndVersion := Some [],
                                                      currentNodeParameters := None\<rparr>)))
     = Some []
   \<and> currentNodeParameters (query (request_of (base_query\<lparr>nodeTypeAndVersion := Some [],
                                                      currentNodeParameters := None\<rparr>)))
     = None
   \<and> parseQueryParams stub_env
       (request_of (base_query\<lparr>nodeTypeAndVersion := Some [], currentNodeParameters := None\<rparr>))
     = (Inl (BadRequestError ''Parameter nodeTypeAndVersion is required.''), [])
   \<and> handle_request stub_env Options
       (request_of (base_query\<lparr>nodeTypeAndVersion := Some [], currentNodeParameters := None\<rparr>))
     = (Inl (BadRequestError ''Parameter nodeTypeAndVersion is required.''), [])"
  by (simp add: eval_defs)

subsection \<open>Malformed JSON\<close>

text \<open>
  Claim C4, as amended. Take a request that passes the method-name gate and supplies
  non-empty \<^verbatim>\<open>nodeTypeAndVersion\<close> and \<^verbatim>\<open>currentNodeParameters\<close>. If one of these two, or
  a non-empty \<^verbatim>\<open>credentials\<close>, is not valid JSON, the request fails with the parse error,
  which is no bad-request error of a missing field, the status is 400, and the only calls
  made are calls of the decoder: neither the context builder nor a resolution
  collaborator is called.
\<close>

theorem malformed_json_rejected:
  assumes "ep = Options \<or> truthy (methodName (query req))"
    and "truthy (nodeTypeAndVersion (query req))"
    and "truthy (currentNodeParameters (query req))"
    and "json_decode env (the (nodeTypeAndVersion (query req))) = None
       \<or> json_decode env (the (currentNodeParameters (query req))) = None
       \<or> (truthy (credentials (query req))
            \<and> json_decode env (the (credentials (query req))) = None)"
  shows "fst (handle_request env ep req) = Inl ParseError
       \<and> (\<forall>msg. fst (handle_request env ep req) \<noteq> Inl (BadRequestError msg))
       \<and> http_status st (fst (handle_request env ep req)) = 400
       \<and> (\<forall>c \<in> set (snd (handle_request env ep req)). is_decode c)"
proof -
  have v: "validate env ep req = parseQueryParams env req"
    using assms(1) by (rule validate_gate)
  obtain l where p: "parseQueryParams env req = (Inl ParseError, l)"
    using parseQueryParams_malformed(1)[OF assms(2-4)]
    by (cases "parseQueryParams env req") auto
  have "\<forall>c \<in> set l. is_decode c"
    using parseQueryParams_malformed(2)[OF assms(2-4)] p by simp
  moreover have "handle_request env ep req = (Inl ParseError, l)"
    using v p by (simp add: handle_request_invalid)
  ultimately show ?thesis by simp
qed

theorem malformed_json_rejected_witness:
  "fst (handle_request stub_env Options
          (request_of (base_query\<lparr>currentNodeParameters := Some ''not-json''\<rparr>)))
     = Inl ParseError
   \<and> http_status fst (fst (handle_request stub_env Options
          (request_of (base_query\<lparr>currentNodeParameters := Some ''not-json''\<rparr>)))) = 400
   \<and> list_all is_decode (snd (handle_request stub_env Options
          (request_of (base_query\<lparr>currentNodeParameters := Some ''not-json''\<rparr>))))"
  using malformed_json_rejected[of Options
          "request_of (base_query\<lparr>currentNodeParameters := Some ''not-json''\<rparr>)" stub_env fst]
  by (simp add: request_of_def base_query_def truthy_def stub_env_def stub_decode_def
        list_all_iff)

text \<open>
  As stated, the claim covers every request with a malformed structured field. The
  validator tests both required fields for presence before it decodes anything: with a
  malformed \<^verbatim>\<open>nodeTypeAndVersion\<close> and no \<^verbatim>\<open>currentNodeParameters\<close>, the failure is the
  missing-field error itself.
\<close>

theorem malformed_json_rejected_counterexample:
  "json_decode stub_env ''not-json'' = None
   \<and> handle_request stub_env Options
       (request_of (base_query\<lparr>nodeTypeAndVersion := Some ''not-json'',
                               currentNodeParameters := None\<rparr>))
     = (Inl (BadRequestError ''Parameter currentNodeParameters is required.''), [])"
  by (simp add: eval_defs)

subsection \<open>Lazy decoding of the load-options descriptor\<close>

text \<open>
  Claim C5, as amended. The validator never decodes \<^verbatim>\<open>loadOptions\<close>. A request decodes
  it only on the options endpoint, only when \<^verbatim>\<open>methodName\<close> is absent or empty, and only
  when \<^verbatim>\<open>loadOptions\<close> is supplied and not empty. When \<^verbatim>\<open>methodName\<close> is supplied and not
  empty, an options request runs the same way whatever \<^verbatim>\<open>loadOptions\<close> is, so a malformed
  one cannot make it fail.
\<close>

theorem loadOptions_decoded_lazily:
  "(\<forall>s. JsonParse FLoadOptions s \<notin> set (snd (validate env ep req)))
   \<and> (\<forall>s. JsonParse FLoadOptions s \<in> set (snd (handle_request env ep req)) \<longrightarrow>
          ep = Options \<and> \<not> truthy (methodName (query req))
          \<and> loadOptions (query req) = Some s \<and> s \<noteq> [])
   \<and> (truthy (methodName (query req)) \<longrightarrow>
          handle_request env Options (req\<lparr>query := (query req)\<lparr>loadOptions := v\<rparr>\<rparr>)
            = handle_request env Options req)"
proof -
  have A: "JsonParse FLoadOptions s \<notin> set (snd (validate env ep req))" for s
    using validate_calls[of "JsonParse FLoadOptions s" env ep req] by auto
  have B: "ep = Options \<and> \<not> truthy (methodName (query req))
          \<and> loadOptions (query req) = Some s \<and> s \<noteq> []"
    if a: "JsonParse FLoadOptions s \<in> set (snd (handle_request env ep req))" for s
  proof -
    obtain out vlog where v: "validate env ep req = (out, vlog)"
      by (cases "validate env ep req")
    have nv: "JsonParse FLoadOptions s \<notin> set vlog"
      using A[of s] v by simp
    show ?thesis
    proof (cases out)
      case (Inl e)
      with v a nv show ?thesis by (simp add: handle_request_invalid)
    next
      case (Inr req')
      with v have v': "validate env ep req = (Inr req', vlog)" by simp
      from a nv have "JsonParse FLoadOptions s \<in> set (snd (handler env ep req'))"
        by (simp add: handle_request_valid[OF v'])
      then have "ep = Options \<and> \<not> truthy (methodName (query req'))
            \<and> loadOptions (query req') = Some s \<and> s \<noteq> []"
        by (cases ep)
           (auto simp: handler_defs truthy_def split: sum.splits if_splits option.splits)
      then show ?thesis by (simp add: validate_ok(1)[OF v'])
    qed
  qed
  have C: "handle_request env Options (req\<lparr>query := (query req)\<lparr>loadOptions := v\<rparr>\<rparr>)
            = handle_request env Options req"
    if m: "truthy (methodName (query req))"
  proof -
    let ?req = "req\<lparr>query := (query req)\<lparr>loadOptions := v\<rparr>\<rparr>"
    have p: "parseQueryParams env ?req
           = and_then (parseQueryParams env req)
               (\<lambda>r. ret (r\<lparr>query := (query r)\<lparr>loadOptions := v\<rparr>\<rparr>))"
      by (simp add: parseQueryParams_def jsonParse_def throw_def ret_def Let_def
            split: option.splits)
    have h: "handler env Options (r\<lparr>query := (query r)\<lparr>loadOptions := v\<rparr>\<rparr>)
               = handler env Options r" if "query r = query req" for r
      using m that by (simp add: handler_defs)
    show ?thesis
    proof (cases "validate env Options req")
      case (Pair out vlog)
      then have pq: "parseQueryParams env req = (out, vlog)" by (simp add: validate_gate)
      show ?thesis
      proof (cases out)
        case (Inl e)
        with pq show ?thesis by (simp add: handle_request_def validate_gate p)
      next
        case (Inr req')
        with Pair have "query req' = query req" by (simp add: validate_ok(1))
        with Inr pq h[of req'] show ?thesis
          by (simp add: handle_request_def validate_gate p ret_def)
      qed
    qed
  qed
  from A B C show ?thesis by blast
qed

theorem loadOptions_decoded_lazily_witness:
  "handle_request stub_env Options
     (request_of (base_query\<lparr>methodName := Some ''getUrls'', loadOptions := Some ''not-json''\<rparr>))
   = handle_request stub_env Options
     (request_of (base_query\<lparr>methodName := Some ''getUrls''\<rparr>))"
  using loadOptions_decoded_lazily[of stub_env Options
          "request_of (base_query\<lparr>methodName := Some ''getUrls''\<rparr>)" "Some ''not-json''"]
  by (simp add: request_of_def base_query_def truthy_def)

text \<open>
  As stated, the claim covers every options call in which \<^verbatim>\<open>methodName\<close> is supplied.
  With \<^verbatim>\<open>methodName=\<close> the load-options mode is selected, the malformed \<^verbatim>\<open>loadOptions\<close>
  is decoded, and the request fails.
\<close>

theorem loadOptions_decoded_lazily_counterexample:
  "methodName (query (request_of (base_query\<lparr>methodName := Some [],
                                              loadOptions := Some ''not-json''\<rparr>)))
     = Some []
   \<and> handle_request stub_env Options
       (request_of (base_query\<lparr>methodName := Some [], loadOptions := Some ''not-json''\<rparr>))
     = (Inl ParseError,
        [JsonParse FNodeTypeAndVersion ''{name,1}'', JsonParse FCurrentNodeParameters ''{}'',
         GetBase ''u1'' (Some ''{}''), JsonParse FLoadOptions ''not-json''])"
  by (simp add: eval_defs)

subsection \<open>The execution context\<close>

text \<open>
  Claim C6. When validation succeeds, the context builder is called exactly once; its call
  comes right after the calls of the validator, and so before every resolution call; and
  when it throws, the request ends with what it threw and no resolution call is made.
  When validation fails, the request ends with the validator's error and neither the
  context builder nor a resolution collaborator is called.
\<close>

theorem context_built_once_after_validation:
  "(\<forall>req' vlog. validate env ep req = (Inr req', vlog) \<longrightarrow>
      length (filter is_getBase (snd (handle_request env ep req))) = 1
      \<and> take (Suc (length vlog)) (snd (handle_request env ep req))
          = vlog @ [GetBase (user_id req) (currentNodeParameters_p (params req'))]
      \<and> filter (\<lambda>c. \<not> is_decode c) (snd (handle_request env ep req))
          = GetBase (user_id req) (currentNodeParameters_p (params req'))
            # filter is_resolution (snd (handle_request env ep req))
      \<and> (\<forall>x. getBase env (user_id req) (currentNodeParameters_p (params req')) = Inl x \<longrightarrow>
            handle_request env ep req
              = (Inl (Thrown x),
                 vlog @ [GetBase (user_id req) (currentNodeParameters_p (params req'))])))
   \<and> (\<forall>e vlog. validate env ep req = (Inl e, vlog) \<longrightarrow>
        handle_request env ep req = (Inl e, vlog)
        \<and> filter (\<lambda>c. \<not> is_decode c) (snd (handle_request env ep req)) = [])"
proof -
  have A: "length (filter is_getBase (snd (handle_request env ep req))) = 1
      \<and> take (Suc (length vlog)) (snd (handle_request env ep req))
          = vlog @ [GetBase (user_id req) (currentNodeParameters_p (params req'))]
      \<and> filter (\<lambda>c. \<not> is_decode c) (snd (handle_request env ep req))
          = GetBase (user_id req) (currentNodeParameters_p (params req'))
            # filter is_resolution (snd (handle_request env ep req))
      \<and> (\<forall>x. getBase env (user_id req) (currentNodeParameters_p (params req')) = Inl x \<longrightarrow>
            handle_request env ep req
              = (Inl (Thrown x),
                 vlog @ [GetBase (user_id req) (currentNodeParameters_p (params req'))]))"
    if v: "validate env ep req = (Inr req', vlog)" for req' vlog
  proof -
    note u = validate_ok(2)[OF v]
    have d: "\<forall>c \<in> set vlog. is_decode c" by (rule validate_ok(5)[OF v])
    then have d1: "filter (\<lambda>c. \<not> is_decode c) vlog = []"
      by (simp add: filter_empty_conv)
    have "\<forall>c \<in> set vlog. \<not> is_getBase c \<and> \<not> is_resolution c"
    proof
      fix c assume "c \<in> set vlog"
      with d have "is_decode c" by simp
      then show "\<not> is_getBase c \<and> \<not> is_resolution c" by (cases c) simp_all
    qed
    then have d2: "filter is_getBase vlog = []" and d3: "filter is_resolution vlog = []"
      by (simp_all add: filter_empty_conv)
    obtain rest where s: "snd (handler env ep req')
        = GetBase (user_id req') (currentNodeParameters_p (params req')) # rest"
      and nb: "\<forall>c \<in> set rest. \<not> is_getBase c"
      using handler_calls[of env ep req'] by blast
    from nb have g: "filter is_getBase rest = []" by (simp add: filter_empty_conv)
    have f: "\<And>x. getBase env (user_id req') (currentNodeParameters_p (params req')) = Inl x \<Longrightarrow>
       handler env ep req'
         = (Inl (Thrown x), [GetBase (user_id req') (currentNodeParameters_p (params req'))])"
      by (rule handler_context_failure)
    show ?thesis
      using g f handler_calls_shape[of env ep req'] s
      by (simp add: handle_request_valid[OF v] d1 d2 d3 u)
  qed
  have B: "handle_request env ep req = (Inl e, vlog)
        \<and> filter (\<lambda>c. \<not> is_decode c) (snd (handle_request env ep req)) = []"
    if v: "validate env ep req = (Inl e, vlog)" for e vlog
  proof -
    have "\<forall>c \<in> set vlog. is_decode c"
      using validate_calls[of _ env ep req] v by fastforce
    then show ?thesis
      by (simp add: handle_request_invalid[OF v] filter_empty_conv)
  qed
  from A B show ?thesis by blast
qed

theorem context_built_once_after_validation_witness:
  "filter (\<lambda>c. \<not> is_decode c)
     (snd (handle_request stub_env ResourceMapperFields
        (request_of (base_query\<lparr>methodName := Some ''getUrls''\<rparr>))))
   = GetBase ''u1'' (Some ''{}'')
     # filter is_resolution
         (snd (handle_request stub_env ResourceMapperFields
            (request_of (base_query\<lparr>methodName := Some ''getUrls''\<rparr>))))
   \<and> handle_request no_context_env ResourceMapperFields
        (request_of (base_query\<lparr>methodName := Some ''getUrls''\<rparr>))
     = (Inl (Thrown (500, ''no context'')),
        [JsonParse FNodeTypeAndVersion ''{name,1}'', JsonParse FCurrentNodeParameters ''{}'',
         GetBase ''u1'' (Some ''{}'')])
   \<and> handle_request stub_env ResourceMapperFields (request_of base_query)
     = (Inl (BadRequestError ''Parameter methodName is required.''), [])"
proof -
  let ?r = "request_of (base_query\<lparr>methodName := Some ''getUrls''\<rparr>)"
  let ?r' = "?r\<lparr>params := \<lparr>nodeTypeAndVersion_p = Some ''{name,1}'',
                            currentNodeParameters_p = Some ''{}'',
                            credentials_p = None\<rparr>\<rparr>"
  let ?vlog = "[JsonParse FNodeTypeAndVersion ''{name,1}'',
                JsonParse FCurrentNodeParameters ''{}''] :: (string, string) call list"
  have v1: "validate stub_env ResourceMapperFields ?r = (Inr ?r', ?vlog)"
    by (simp add: eval_defs)
  have v2: "validate no_context_env ResourceMapperFields ?r = (Inr ?r', ?vlog)"
    by (simp add: eval_defs)
  have v3: "validate stub_env ResourceMapperFields (request_of base_query)
      = (Inl (BadRequestError ''Parameter methodName is required.''), [])"
    by (simp add: eval_defs)
  have b: "getBase no_context_env (user_id ?r) (currentNodeParameters_p (params ?r'))
      = Inl (500, ''no context'')"
    by (simp add: no_context_env_def stub_env_def)
  from context_built_once_after_validation[of stub_env ResourceMapperFields ?r] v1
       context_built_once_after_validation[of no_context_env ResourceMapperFields ?r] v2 b
       context_built_once_after_validation[of stub_env ResourceMapperFields
         "request_of base_query"] v3
  show ?thesis by (simp add: request_of_def)
qed

subsection \<open>The result of the resolution call\<close>

text \<open>
  Claim C7. Take a request that passes validation and whose context is built. On
  resource-locator-results and on resource-mapper-fields the handler calls the service,
  once, with the fields of the request, and the outcome of the request is what that call
  returned (were it \<^verbatim>\<open>undefined\<close>) or what it threw, as it is; so it is on the options
  endpoint for the call by method name, and for the call by load-options descriptor once
  the descriptor decodes. And whatever the request: when the list of its calls holds a
  resolution call, it holds no other and the outcome of the request is the outcome of
  that call.
\<close>

theorem resolution_result_returned_unchanged:
  "(\<forall>req' vlog ad.
      validate env ep req = (Inr req', vlog)
      \<and> getBase env (user_id req) (currentNodeParameters_p (params req')) = Inr ad \<longrightarrow>
      (ep = ResourceLocatorResults \<longrightarrow>
         handle_request env ep req
           = (map_sum Thrown LocatorResult
                (getResourceLocatorResults env (methodName (query req)) (path (query req)) ad
                   (nodeTypeAndVersion_p (params req')) (currentNodeParameters_p (params req'))
                   (credentials_p (params req')) (filter_q (query req))
                   (paginationToken (query req))),
              vlog @
              [GetBase (user_id req) (currentNodeParameters_p (params req')),
               GetResourceLocatorResults (methodName (query req)) (path (query req)) ad
                 (nodeTypeAndVersion_p (params req')) (currentNodeParameters_p (params req'))
                 (credentials_p (params req')) (filter_q (query req))
                 (paginationToken (query req))]))
      \<and> (ep = ResourceMapperFields \<longrightarrow>
         handle_request env ep req
           = (map_sum Thrown MapperFields
                (getResourceMappingFields env (methodName (query req)) (path (query req)) ad
                   (nodeTypeAndVersion_p (params req')) (currentNodeParameters_p (params req'))
                   (credentials_p (params req'))),
              vlog @
              [GetBase (user_id req) (currentNodeParameters_p (params req')),
               GetResourceMappingFields (methodName (query req)) (path (query req)) ad
                 (nodeTypeAndVersion_p (params req')) (currentNodeParameters_p (params req'))
                 (credentials_p (params req'))]))
      \<and> (ep = Options \<and> truthy (methodName (query req)) \<longrightarrow>
         handle_request env ep req
           = (map_sum Thrown OptionList
                (getOptionsViaMethodName env (methodName (query req)) (path (query req)) ad
                   (nodeTypeAndVersion_p (params req')) (currentNodeParameters_p (params req'))
                   (credentials_p (params req'))),
              vlog @
              [GetBase (user_id req) (currentNodeParameters_p (params req')),
               GetOptionsViaMethodName (methodName (query req)) (path (query req)) ad
                 (nodeTypeAndVersion_p (params req')) (currentNodeParameters_p (params req'))
                 (credentials_p (params req'))]))
      \<and> (ep = Options \<and> \<not> truthy (methodName (query req))
           \<and> truthy (loadOptions (query req)) \<longrightarrow>
         (\<forall>lo. json_decode env (the (loadOptions (query req))) = Some lo \<longrightarrow>
            handle_request env ep req
              = (map_sum Thrown OptionList
                   (getOptionsViaLoadOptions env lo ad
                      (nodeTypeAndVersion_p (params req')) (currentNodeParameters_p (params req'))
                      (credentials_p (params req'))),
                 vlog @
                 [GetBase (user_id req) (currentNodeParameters_p (params req')),
                  JsonParse FLoadOptions (the (loadOptions (query req))),
                  GetOptionsViaLoadOptions lo ad
                    (nodeTypeAndVersion_p (params req')) (currentNodeParameters_p (params req'))
                    (credentials_p (params req'))]))))
   \<and> (\<forall>c. c \<in> set (snd (handle_request env ep req)) \<and> is_resolution c \<longrightarrow>
          resolution_outcome env c = Some (fst (handle_request env ep req))
          \<and> filter is_resolution (snd (handle_request env ep req)) = [c])"
proof -
  have made: "(ep = ResourceLocatorResults \<longrightarrow>
         handle_request env ep req
           = (map_sum Thrown LocatorResult
                (getResourceLocatorResults env (methodName (query req)) (path (query req)) ad
                   (nodeTypeAndVersion_p (params req')) (currentNodeParameters_p (params req'))
                   (credentials_p (params req')) (filter_q (query req))
                   (paginationToken (query req))),
              vlog @
              [GetBase (user_id req) (currentNodeParameters_p (params req')),
               GetResourceLocatorResults (methodName (query req)) (path (query req)) ad
                 (nodeTypeAndVersion_p (params req')) (currentNodeParameters_p (params req'))
                 (credentials_p (params req')) (filter_q (query req))
                 (paginationToken (query req))]))
      \<and> (ep = ResourceMapperFields \<longrightarrow>
         handle_request env ep req
           = (map_sum Thrown MapperFields
                (getResourceMappingFields env (methodName (query req)) (path (query req)) ad
                   (nodeTypeAndVersion_p (params req')) (currentNodeParameters_p (params req'))
                   (credentials_p (params req'))),
              vlog @
              [GetBase (user_id req) (currentNodeParameters_p (params req')),
               GetResourceMappingFields (methodName (query req)) (path (query req)) ad
                 (nodeTypeAndVersion_p (params req')) (currentNodeParameters_p (params req'))
                 (credentials_p (params req'))]))
      \<and> (ep = Options \<and> truthy (methodName (query req)) \<longrightarrow>
         handle_request env ep req
           = (map_sum Thrown OptionList
                (getOptionsViaMethodName env (methodName (query req)) (path (query req)) ad
                   (nodeTypeAndVersion_p (params req')) (currentNodeParameters_p (params req'))
                   (credentials_p (params req'))),
              vlog @
              [GetBase (user_id req) (currentNodeParameters_p (params req')),
               GetOptionsViaMethodName (methodName (query req)) (path (query req)) ad
                 (nodeTypeAndVersion_p (params req')) (currentNodeParameters_p (params req'))
                 (credentials_p (params req'))]))
      \<and> (ep = Options \<and> \<not> truthy (methodName (query req))
           \<and> truthy (loadOptions (query req)) \<longrightarrow>
         (\<forall>lo. json_decode env (the (loadOptions (query req))) = Some lo \<longrightarrow>
            handle_request env ep req
              = (map_sum Thrown OptionList
                   (getOptionsViaLoadOptions env lo ad
                      (nodeTypeAndVersion_p (params req')) (currentNodeParameters_p (params req'))
                      (credentials_p (params req'))),
                 vlog @
                 [GetBase (user_id req) (currentNodeParameters_p (params req')),
                  JsonParse FLoadOptions (the (loadOptions (query req))),
                  GetOptionsViaLoadOptions lo ad
                    (nodeTypeAndVersion_p (params req')) (currentNodeParameters_p (params req'))
                    (credentials_p (params req'))])))"
    if v: "validate env ep req = (Inr req', vlog)"
      and b: "getBase env (user_id req) (currentNodeParameters_p (params req')) = Inr ad"
    for req' vlog ad
  proof -
    note h = handle_request_run[OF v]
    from b have b': "getBase env (user_id req') (currentNodeParameters_p (params req')) = Inr ad"
      by (simp add: h(3))
    note r = handler_run[OF b']
    show ?thesis
    proof (cases ep)
      case ResourceLocatorResults
      then show ?thesis using h(1) r(1) by (simp add: h(2) h(3))
    next
      case ResourceMapperFields
      then show ?thesis using h(1) r(2) by (simp add: h(2) h(3))
    next
      case Options
      show ?thesis
      proof (cases "truthy (methodName (query req))")
        case True
        with Options show ?thesis using h(1) r(3) by (simp add: h(2) h(3))
      next
        case False
        show ?thesis
        proof (cases "truthy (loadOptions (query req))")
          case True
          with False Options show ?thesis using h(1) r(4) by (simp add: h(2) h(3))
        next
          case f: False
          with False Options show ?thesis by simp
        qed
      qed
    qed
  qed
  have only: "resolution_outcome env c = Some (fst (handle_request env ep req))
       \<and> filter is_resolution (snd (handle_request env ep req)) = [c]"
    if m: "c \<in> set (snd (handle_request env ep req))" and r: "is_resolution c" for c
  proof -
    from r have nd: "\<not> is_decode c" by (cases c) simp_all
    from m nd obtain req' vlog where v: "validate env ep req = (Inr req', vlog)"
      by (rule resolution_call_valid)
    from resolution_call_in_handler[OF v m nd] r
    have "resolution_outcome env c = Some (fst (handler env ep req'))
       \<and> filter is_resolution (snd (handler env ep req')) = [c]"
      by (rule handler_resolution)
    then show ?thesis
      by (simp add: filter_resolution_valid[OF v])
  qed
  from made only show ?thesis by blast
qed

theorem resolution_result_returned_unchanged_witness:
  "handle_request stub_env ResourceMapperFields
     (request_of (base_query\<lparr>methodName := Some ''getFields''\<rparr>))
     = (Inr (MapperFields (Some (''id'', ''string''))),
        [JsonParse FNodeTypeAndVersion ''{name,1}'', JsonParse FCurrentNodeParameters ''{}'',
         GetBase ''u1'' (Some ''{}''),
         GetResourceMappingFields (Some ''getFields'') (Some ''parameters.url'') ''u1''
           (Some ''{name,1}'') (Some ''{}'') None])
   \<and> handle_request unreachable_env Options
     (request_of (base_query\<lparr>methodName := Some ''getFields''\<rparr>))
     = (Inl (Thrown (500, ''upstream unreachable'')),
        [JsonParse FNodeTypeAndVersion ''{name,1}'', JsonParse FCurrentNodeParameters ''{}'',
         GetBase ''u1'' (Some ''{}''),
         GetOptionsViaMethodName (Some ''getFields'') (Some ''parameters.url'') ''u1''
           (Some ''{name,1}'') (Some ''{}'') None])"
proof -
  let ?r = "request_of (base_query\<lparr>methodName := Some ''getFields''\<rparr>)"
  let ?r' = "?r\<lparr>params := \<lparr>nodeTypeAndVersion_p = Some ''{name,1}'',
                            currentNodeParameters_p = Some ''{}'',
                            credentials_p = None\<rparr>\<rparr>"
  let ?vlog = "[JsonParse FNodeTypeAndVersion ''{name,1}'',
                JsonParse FCurrentNodeParameters ''{}''] :: (string, string) call list"
  have v1: "validate stub_env ResourceMapperFields ?r = (Inr ?r', ?vlog)"
    by (simp add: eval_defs)
  have v2: "validate unreachable_env Options ?r = (Inr ?r', ?vlog)"
    by (simp add: eval_defs)
  have b1: "getBase stub_env (user_id ?r) (currentNodeParameters_p (params ?r')) = Inr ''u1''"
    by (simp add: stub_env_def request_of_def)
  have b2: "getBase unreachable_env (user_id ?r) (currentNodeParameters_p (params ?r'))
              = Inr ''u1''"
    by (simp add: unreachable_env_def stub_env_def request_of_def)
  have m: "truthy (methodName (query ?r))"
    by (simp add: truthy_def request_of_def base_query_def)
  from resolution_result_returned_unchanged[of stub_env ResourceMapperFields ?r] v1 b1
  have 1: "handle_request stub_env ResourceMapperFields ?r
     = (map_sum Thrown MapperFields
          (getResourceMappingFields stub_env (methodName (query ?r)) (path (query ?r)) ''u1''
             (nodeTypeAndVersion_p (params ?r')) (currentNodeParameters_p (params ?r'))
             (credentials_p (params ?r'))),
        ?vlog @
        [GetBase (user_id ?r) (currentNodeParameters_p (params ?r')),
         GetResourceMappingFields (methodName (query ?r)) (path (query ?r)) ''u1''
           (nodeTypeAndVersion_p (params ?r')) (currentNodeParameters_p (params ?r'))
           (credentials_p (params ?r'))])"
    by blast
  from resolution_result_returned_unchanged[of unreachable_env Options ?r] v2 b2 m
  have 2: "handle_request unreachable_env Options ?r
     = (map_sum Thrown OptionList
          (getOptionsViaMethodName unreachable_env (methodName (query ?r)) (path (query ?r)) ''u1''
             (nodeTypeAndVersion_p (params ?r')) (currentNodeParameters_p (params ?r'))
             (credentials_p (params ?r'))),
        ?vlog @
        [GetBase (user_id ?r) (currentNodeParameters_p (params ?r')),
         GetOptionsViaMethodName (methodName (query ?r)) (path (query ?r)) ''u1''
           (nodeTypeAndVersion_p (params ?r')) (currentNodeParameters_p (params ?r'))
           (credentials_p (params ?r'))])"
    by blast
  from 1 2 show ?thesis
    by (simp add: stub_env_def unreachable_env_def request_of_def base_query_def)
qed

subsection \<open>Credentials\<close>

text \<open>
  Claim C8, as amended. Take a request that passes validation and whose context is built.
  What the validator stores as credentials is the decoded value of the \<^verbatim>\<open>credentials\<close>
  field when the field is supplied and not empty, and \<^verbatim>\<open>undefined\<close> when it is absent
  or empty. On each of the three endpoints the resolution call is made with exactly that
  value as its credentials argument (on the options endpoint, whichever of the two calls
  is made). And whatever the request, every resolution call in its list carries that
  value.
\<close>

theorem credentials_passed_unchanged:
  "(\<forall>req' vlog ad.
      validate env ep req = (Inr req', vlog)
      \<and> getBase env (user_id req) (currentNodeParameters_p (params req')) = Inr ad \<longrightarrow>
      (\<forall>s. credentials (query req) = Some s \<and> s \<noteq> [] \<longrightarrow>
           credentials_p (params req') = json_decode env s \<and> json_decode env s \<noteq> None)
      \<and> (credentials (query req) = None \<or> credentials (query req) = Some [] \<longrightarrow>
           credentials_p (params req') = None)
      \<and> (ep = ResourceLocatorResults \<longrightarrow>
           filter is_resolution (snd (handle_request env ep req))
             = [GetResourceLocatorResults (methodName (query req)) (path (query req)) ad
                  (nodeTypeAndVersion_p (params req')) (currentNodeParameters_p (params req'))
                  (credentials_p (params req')) (filter_q (query req))
                  (paginationToken (query req))])
      \<and> (ep = ResourceMapperFields \<longrightarrow>
           filter is_resolution (snd (handle_request env ep req))
             = [GetResourceMappingFields (methodName (query req)) (path (query req)) ad
                  (nodeTypeAndVersion_p (params req')) (currentNodeParameters_p (params req'))
                  (credentials_p (params req'))])
      \<and> (ep = Options \<and> truthy (methodName (query req)) \<longrightarrow>
           filter is_resolution (snd (handle_request env ep req))
             = [GetOptionsViaMethodName (methodName (query req)) (path (query req)) ad
                  (nodeTypeAndVersion_p (params req')) (currentNodeParameters_p (params req'))
                  (credentials_p (params req'))])
      \<and> (ep = Options \<and> \<not> truthy (methodName (query req))
           \<and> truthy (loadOptions (query req)) \<longrightarrow>
           (\<forall>lo. json_decode env (the (loadOptions (query req))) = Some lo \<longrightarrow>
              filter is_resolution (snd (handle_request env ep req))
                = [GetOptionsViaLoadOptions lo ad
                     (nodeTypeAndVersion_p (params req')) (currentNodeParameters_p (params req'))
                     (credentials_p (params req'))])))
   \<and> (\<forall>c. c \<in> set (snd (handle_request env ep req)) \<and> is_resolution c \<longrightarrow>
          (\<forall>s. credentials (query req) = Some s \<and> s \<noteq> [] \<longrightarrow>
               credentials_arg c = json_decode env s \<and> json_decode env s \<noteq> None)
          \<and> (credentials (query req) = None \<or> credentials (query req) = Some [] \<longrightarrow>
               credentials_arg c = None))"
proof -
  have made: "(\<forall>s. credentials (query req) = Some s \<and> s \<noteq> [] \<longrightarrow>
           credentials_p (params req') = json_decode env s \<and> json_decode env s \<noteq> None)
      \<and> (credentials (query req) = None \<or> credentials (query req) = Some [] \<longrightarrow>
           credentials_p (params req') = None)
      \<and> (ep = ResourceLocatorResults \<longrightarrow>
           filter is_resolution (snd (handle_request env ep req))
             = [GetResourceLocatorResults (methodName (query req)) (path (query req)) ad
                  (nodeTypeAndVersion_p (params req')) (currentNodeParameters_p (params req'))
                  (credentials_p (params req')) (filter_q (query req))
                  (paginationToken (query req))])
      \<and> (ep = ResourceMapperFields \<longrightarrow>
           filter is_resolution (snd (handle_request env ep req))
             = [GetResourceMappingFields (methodName (query req)) (path (query req)) ad
                  (nodeTypeAndVersion_p (params req')) (currentNodeParameters_p (params req'))
                  (credentials_p (params req'))])
      \<and> (ep = Options \<and> truthy (methodName (query req)) \<longrightarrow>
           filter is_resolution (snd (handle_request env ep req))
             = [GetOptionsViaMethodName (methodName (query req)) (path (query req)) ad
                  (nodeTypeAndVersion_p (params req')) (currentNodeParameters_p (params req'))
                  (credentials_p (params req'))])
      \<and> (ep = Options \<and> \<not> truthy (methodName (query req))
           \<and> truthy (loadOptions (query req)) \<longrightarrow>
           (\<forall>lo. json_decode env (the (loadOptions (query req))) = Some lo \<longrightarrow>
              filter is_resolution (snd (handle_request env ep req))
                = [GetOptionsViaLoadOptions lo ad
                     (nodeTypeAndVersion_p (params req')) (currentNodeParameters_p (params req'))
                     (credentials_p (params req'))]))"
    if v: "validate env ep req = (Inr req', vlog)"
      and b: "getBase env (user_id req) (currentNodeParameters_p (params req')) = Inr ad"
    for req' vlog ad
  proof -
    note h = handle_request_run[OF v]
    note f = filter_resolution_valid(1)[OF v]
    from b have b': "getBase env (user_id req') (currentNodeParameters_p (params req')) = Inr ad"
      by (simp add: h(3))
    note r = handler_run[OF b']
    have c1: "\<forall>s. credentials (query req) = Some s \<and> s \<noteq> [] \<longrightarrow>
           credentials_p (params req') = json_decode env s \<and> json_decode env s \<noteq> None"
      using stored_credentials(1)[OF v] by blast
    have c2: "credentials (query req) = None \<or> credentials (query req) = Some [] \<longrightarrow>
           credentials_p (params req') = None"
      using stored_credentials(2)[OF v] by blast
    have calls: "(ep = ResourceLocatorResults \<longrightarrow>
           filter is_resolution (snd (handle_request env ep req))
             = [GetResourceLocatorResults (methodName (query req)) (path (query req)) ad
                  (nodeTypeAndVersion_p (params req')) (currentNodeParameters_p (params req'))
                  (credentials_p (params req')) (filter_q (query req))
                  (paginationToken (query req))])
      \<and> (ep = ResourceMapperFields \<longrightarrow>
           filter is_resolution (snd (handle_request env ep req))
             = [GetResourceMappingFields (methodName (query req)) (path (query req)) ad
                  (nodeTypeAndVersion_p (params req')) (currentNodeParameters_p (params req'))
                  (credentials_p (params req'))])
      \<and> (ep = Options \<and> truthy (methodName (query req)) \<longrightarrow>
           filter is_resolution (snd (handle_request env ep req))
             = [GetOptionsViaMethodName (methodName (query req)) (path (query req)) ad
                  (nodeTypeAndVersion_p (params req')) (currentNodeParameters_p (params req'))
                  (credentials_p (params req'))])
      \<and> (ep = Options \<and> \<not> truthy (methodName (query req))
           \<and> truthy (loadOptions (query req)) \<longrightarrow>
           (\<forall>lo. json_decode env (the (loadOptions (query req))) = Some lo \<longrightarrow>
              filter is_resolution (snd (handle_request env ep req))
                = [GetOptionsViaLoadOptions lo ad
                     (nodeTypeAndVersion_p (params req')) (currentNodeParameters_p (params req'))
                     (credentials_p (params req'))]))"
    proof (cases ep)
      case ResourceLocatorResults
      then show ?thesis using f r(1) by (simp add: h(2) h(3))
    next
      case ResourceMapperFields
      then show ?thesis using f r(2) by (simp add: h(2) h(3))
    next
      case Options
      show ?thesis
      proof (cases "truthy (methodName (query req))")
        case True
        with Options show ?thesis using f r(3) by (simp add: h(2) h(3))
      next
        case False
        show ?thesis
        proof (cases "truthy (loadOptions (query req))")
          case True
          with False Options show ?thesis using f r(4) by (simp add: h(2) h(3))
        next
          case f: False
          with False Options show ?thesis by simp
        qed
      qed
    qed
    from c1 c2 calls show ?thesis by blast
  qed
  have every: "(\<forall>s. credentials (query req) = Some s \<and> s \<noteq> [] \<longrightarrow>
               credentials_arg c = json_decode env s \<and> json_decode env s \<noteq> None)
          \<and> (credentials (query req) = None \<or> credentials (query req) = Some [] \<longrightarrow>
               credentials_arg c = None)"
    if m: "c \<in> set (snd (handle_request env ep req))" and r: "is_resolution c" for c
  proof -
    from r have nd: "\<not> is_decode c" by (cases c) simp_all
    from m nd obtain req' vlog where v: "validate env ep req = (Inr req', vlog)"
      by (rule resolution_call_valid)
    from resolution_call_in_handler[OF v m nd] r
    have "credentials_arg c = credentials_p (params req')"
      by (rule handler_credentials)
    with stored_credentials[OF v] show ?thesis by auto
  qed
  from made every show ?thesis by blast
qed

theorem credentials_passed_unchanged_witness:
  "filter is_resolution
     (snd (handle_request stub_env ResourceMapperFields
        (request_of (base_query\<lparr>methodName := Some ''getFields'',
                                credentials := Some ''{api:7}''\<rparr>))))
   = [GetResourceMappingFields (Some ''getFields'') (Some ''parameters.url'') ''u1''
        (Some ''{name,1}'') (Some ''{}'') (json_decode stub_env ''{api:7}'')]
   \<and> json_decode stub_env ''{api:7}'' = Some ''{api:7}''"
proof -
  let ?r = "request_of (base_query\<lparr>methodName := Some ''getFields'',
                                     credentials := Some ''{api:7}''\<rparr>)"
  let ?r' = "?r\<lparr>params := \<lparr>nodeTypeAndVersion_p = Some ''{name,1}'',
                            currentNodeParameters_p = Some ''{}'',
                            credentials_p = Some ''{api:7}''\<rparr>\<rparr>"
  let ?vlog = "[JsonParse FNodeTypeAndVersion ''{name,1}'',
                JsonParse FCurrentNodeParameters ''{}'',
                JsonParse FCredentials ''{api:7}''] :: (string, string) call list"
  have v: "validate stub_env ResourceMapperFields ?r = (Inr ?r', ?vlog)"
    by (simp add: eval_defs)
  have b: "getBase stub_env (user_id ?r) (currentNodeParameters_p (params ?r')) = Inr ''u1''"
    by (simp add: stub_env_def request_of_def)
  have c: "credentials (query ?r) = Some ''{api:7}''"
    by (simp add: request_of_def base_query_def)
  from credentials_passed_unchanged[of stub_env ResourceMapperFields ?r] v b
  have 1: "(\<forall>s. credentials (query ?r) = Some s \<and> s \<noteq> [] \<longrightarrow>
           credentials_p (params ?r') = json_decode stub_env s \<and> json_decode stub_env s \<noteq> None)"
    and 2: "filter is_resolution (snd (handle_request stub_env ResourceMapperFields ?r))
             = [GetResourceMappingFields (methodName (query ?r)) (path (query ?r)) ''u1''
                  (nodeTypeAndVersion_p (params ?r')) (currentNodeParameters_p (params ?r'))
                  (credentials_p (params ?r'))]"
    by blast+
  from 1 c have 3: "credentials_p (params ?r') = json_decode stub_env ''{api:7}''" by simp
  from 2 3 show ?thesis
    by (simp add: request_of_def base_query_def)
qed

text \<open>
  As stated, the claim has the decoded value passed whenever the field is supplied. The
  validator tests \<^verbatim>\<open>credentials ? jsonParse(credentials) : undefined\<close>, and the empty string is
  falsy: with \<^verbatim>\<open>credentials=\<close> nothing is decoded and the call receives \<^verbatim>\<open>undefined\<close>, as
  it does when the field is absent.
\<close>

theorem credentials_passed_unchanged_counterexample:
  "credentials (query (request_of (base_query\<lparr>methodName := Some ''search'',
                                               credentials := Some []\<rparr>))) = Some []
   \<and> handle_request stub_env ResourceLocatorResults
       (request_of (base_query\<lparr>methodName := Some ''search'', credentials := Some []\<rparr>))
     = (Inr (LocatorResult None),
        [JsonParse FNodeTypeAndVersion ''{name,1}'', JsonParse FCurrentNodeParameters ''{}'',
         GetBase ''u1'' (Some ''{}''),
         GetResourceLocatorResults (Some ''search'') (Some ''parameters.url'') ''u1''
           (Some ''{name,1}'') (Some ''{}'') None None None])"
  by (simp add: eval_defs)

subsection \<open>Absent and empty optional fields\<close>

text \<open>
  Claim C9, as amended. For \<^verbatim>\<open>methodName\<close>, \<^verbatim>\<open>loadOptions\<close> and \<^verbatim>\<open>credentials\<close>, a request
  with the empty string runs exactly as the request without the field does. For
  \<^verbatim>\<open>filter\<close> and \<^verbatim>\<open>paginationToken\<close>, the resolution call receives the field as the query
  has it, so that the empty string and the absent field stay apart.
\<close>

theorem empty_and_absent_optional_fields:
  "handle_request env ep (req\<lparr>query := (query req)\<lparr>methodName := Some []\<rparr>\<rparr>)
     = handle_request env ep (req\<lparr>query := (query req)\<lparr>methodName := None\<rparr>\<rparr>)
   \<and> handle_request env ep (req\<lparr>query := (query req)\<lparr>loadOptions := Some []\<rparr>\<rparr>)
     = handle_request env ep (req\<lparr>query := (query req)\<lparr>loadOptions := None\<rparr>\<rparr>)
   \<and> handle_request env ep (req\<lparr>query := (query req)\<lparr>credentials := Some []\<rparr>\<rparr>)
     = handle_request env ep (req\<lparr>query := (query req)\<lparr>credentials := None\<rparr>\<rparr>)
   \<and> (\<forall>m p a n cp cr f t.
         GetResourceLocatorResults m p a n cp cr f t \<in> set (snd (handle_request env ep req)) \<longrightarrow>
         f = filter_q (query req) \<and> t = paginationToken (query req))"
proof -
  have D: "f = filter_q (query req) \<and> t = paginationToken (query req)"
    if a: "GetResourceLocatorResults m p a n cp cr f t \<in> set (snd (handle_request env ep req))"
    for m p a n cp cr f t
  proof -
    have nd: "\<not> is_decode (GetResourceLocatorResults m p a n cp cr f t)" by simp
    from a nd obtain req' vlog where v: "validate env ep req = (Inr req', vlog)"
      by (rule resolution_call_valid)
    from resolution_call_in_handler[OF v a nd]
    have "f = filter_q (query req') \<and> t = paginationToken (query req')"
      by (rule handler_locator_args)
    then show ?thesis by (simp add: validate_ok(1)[OF v])
  qed
  from empty_methodName_as_absent[of env ep req] empty_loadOptions_as_absent[of env ep req]
       empty_credentials_as_absent[of env ep req] D
  show ?thesis by blast
qed

theorem empty_and_absent_optional_fields_witness:
  "handle_request stub_env Options
     (request_of (base_query\<lparr>methodName := Some [], loadOptions := Some ''{}''\<rparr>))
   = handle_request stub_env Options
     (request_of (base_query\<lparr>methodName := None, loadOptions := Some ''{}''\<rparr>))
   \<and> GetResourceLocatorResults (Some ''search'') (Some ''parameters.url'') ''u1''
        (Some ''{name,1}'') (Some ''{}'') None (Some []) None
     \<in> set (snd (handle_request stub_env ResourceLocatorResults
          (request_of (base_query\<lparr>methodName := Some ''search'', filter_q := Some []\<rparr>))))
   \<and> filter_q (query (request_of (base_query\<lparr>methodName := Some ''search'',
                                              filter_q := Some []\<rparr>))) = Some []"
proof -
  let ?r = "request_of (base_query\<lparr>methodName := Some ''search'', filter_q := Some []\<rparr>)"
  have m: "GetResourceLocatorResults (Some ''search'') (Some ''parameters.url'') ''u1''
        (Some ''{name,1}'') (Some ''{}'') None (Some []) None
     \<in> set (snd (handle_request stub_env ResourceLocatorResults ?r))"
    by (simp add: eval_defs)
  from empty_and_absent_optional_fields[of stub_env Options
         "request_of (base_query\<lparr>loadOptions := Some ''{}''\<rparr>)"]
       empty_and_absent_optional_fields[of stub_env ResourceLocatorResults ?r] m
  show ?thesis by (simp add: request_of_def base_query_def)
qed

text \<open>
  As stated, the claim has an empty string treated differently from an absent field for
  every optional field. On resource-locator-results, \<^verbatim>\<open>methodName=\<close> is rejected with the
  same error as a request without \<^verbatim>\<open>methodName\<close>.
\<close>

theorem empty_and_absent_optional_fields_counterexample:
  "handle_request stub_env ResourceLocatorResults
     (request_of (base_query\<lparr>methodName := Some []\<rparr>))
     = (Inl (BadRequestError ''Parameter methodName is required.''), [])
   \<and> handle_request stub_env ResourceLocatorResults
     (request_of (base_query\<lparr>methodName := None\<rparr>))
     = (Inl (BadRequestError ''Parameter methodName is required.''), [])"
  by (simp add: eval_defs)

subsection \<open>The context of an options request without a mode\<close>

text \<open>
  Claim C10. An options request that passes validation and supplies neither
  \<^verbatim>\<open>methodName\<close> nor \<^verbatim>\<open>loadOptions\<close> calls the context builder, once, and nothing after
  it: when the builder throws, the request fails with what it threw; when it returns,
  the request succeeds with the empty list.
\<close>

theorem context_built_for_empty_options:
  assumes "validate env Options req = (Inr req', vlog)"
    and "methodName (query req) = None"
    and "loadOptions (query req) = None"
  shows "snd (handle_request env Options req)
           = vlog @ [GetBase (user_id req) (currentNodeParameters_p (params req'))]
       \<and> (\<forall>x. getBase env (user_id req) (currentNodeParameters_p (params req')) = Inl x \<longrightarrow>
            fst (handle_request env Options req) = Inl (Thrown x))
       \<and> (\<forall>ad. getBase env (user_id req) (currentNodeParameters_p (params req')) = Inr ad \<longrightarrow>
            fst (handle_request env Options req) = Inr (OptionList []))"
proof -
  note q = validate_ok(1)[OF assms(1)] and u = validate_ok(2)[OF assms(1)]
  have "snd (handler env Options req')
          = [GetBase (user_id req') (currentNodeParameters_p (params req'))]
      \<and> (\<forall>x. getBase env (user_id req') (currentNodeParameters_p (params req')) = Inl x \<longrightarrow>
            fst (handler env Options req') = Inl (Thrown x))
      \<and> (\<forall>ad. getBase env (user_id req') (currentNodeParameters_p (params req')) = Inr ad \<longrightarrow>
            fst (handler env Options req') = Inr (OptionList []))"
    using assms(2,3) q
    by (auto simp: handler_defs and_then_def truthy_def split: sum.splits)
  then show ?thesis
    by (simp add: handle_request_valid[OF assms(1)] u)
qed

theorem context_built_for_empty_options_witness:
  "handle_request no_context_env Options (request_of base_query)
     = (Inl (Thrown (500, ''no context'')),
        [JsonParse FNodeTypeAndVersion ''{name,1}'', JsonParse FCurrentNodeParameters ''{}'',
         GetBase ''u1'' (Some ''{}'')])"
proof -
  let ?r = "request_of base_query"
  let ?r' = "?r\<lparr>params := \<lparr>nodeTypeAndVersion_p = Some ''{name,1}'',
                            currentNodeParameters_p = Some ''{}'',
                            credentials_p = None\<rparr>\<rparr>"
  let ?vlog = "[JsonParse FNodeTypeAndVersion ''{name,1}'',
                JsonParse FCurrentNodeParameters ''{}''] :: (string, string) call list"
  have v: "validate no_context_env Options ?r = (Inr ?r', ?vlog)"
    by (simp add: eval_defs)
  have m: "methodName (query ?r) = None" "loadOptions (query ?r) = None"
    by (simp_all add: request_of_def base_query_def)
  have b: "getBase no_context_env (user_id ?r) (currentNodeParameters_p (params ?r'))
      = Inl (500, ''no context'')"
    by (simp add: no_context_env_def stub_env_def)
  from context_built_for_empty_options[OF v m] b
  show ?thesis
    by (cases "handle_request no_context_env Options ?r") (simp add: request_of_def)
qed

end
